theory Spec2Isabelle
  imports Main
begin

section \<open>Strings and paths as the Python library handles them\<close>

type_synonym path = string

definition squote :: "string \<Rightarrow> string" where
  "squote s = [CHR 0x27] @ s @ [CHR 0x27]"

definition newline :: char where
  "newline = CHR 0x0A"


text \<open>\<^verbatim>\<open>s.split(sep)\<close> for a one-character separator: the empty string gives one empty
  field, and n separators give n + 1 fields.\<close>

fun split_on :: "char \<Rightarrow> string \<Rightarrow> string list" where
  "split_on c [] = [[]]"
| "split_on c (x # xs) =
     (if x = c then [] # split_on c xs
      else (case split_on c xs of [] \<Rightarrow> [[x]] | p # ps \<Rightarrow> (x # p) # ps))"

text \<open>\<^verbatim>\<open>s.rfind(c)\<close>: the index of the last occurrence, \<open>None\<close> for Python's -1.\<close>

definition rfind :: "char \<Rightarrow> string \<Rightarrow> nat option" where
  "rfind c s =
     (if c \<in> set s then Some (length s - 1 - length (takeWhile (\<lambda>x. x \<noteq> c) (rev s)))
      else None)"



text \<open>\<^verbatim>\<open>os.path.join(a, b)\<close> of posixpath: an absolute second part replaces the
  first, otherwise the parts are joined by one slash.\<close>

definition join2 :: "path \<Rightarrow> path \<Rightarrow> path" where
  "join2 a b =
     (if b \<noteq> [] \<and> hd b = CHR ''/'' then b
      else if a = [] \<or> last a = CHR ''/'' then a @ b
      else a @ ''/'' @ b)"

definition os_path_join :: "path \<Rightarrow> path list \<Rightarrow> path" where
  "os_path_join a ps = foldl join2 a ps"

fun strip_prefix :: "string \<Rightarrow> string \<Rightarrow> string option" where
  "strip_prefix [] s = Some s"
| "strip_prefix (p # ps) [] = None"
| "strip_prefix (p # ps) (x # xs) = (if p = x then strip_prefix ps xs else None)"

section \<open>Errors\<close>

datatype error =
    LookupError string
  | UserWarning string
  | GitCommandError
  | InvalidGitRepositoryError
  | FileNotFoundError
  | FileExistsError
  | IndexError
  | ValueError
  | TypeError
  | StopIteration
  | UnboundLocalError
  | EOFError

section \<open>Listing the branches of a remote\<close>




section \<open>The version-control engine, the file system and the process state\<close>

text \<open>A commit as the engine reports it: its identifier, its message and the paths of
  the files it changes, relative to the root of the repository.\<close>

record commit =
  hexsha :: string
  message :: string
  changed :: "path list"

type_synonym files = "(path \<times> string) list"

text \<open>A local clone. \<open>branches\<close> and \<open>shas\<close> are the names \<^verbatim>\<open>git checkout\<close> resolves,
  \<open>HEAD\<close> is the active ref (the name checked out last), \<open>origin_HEAD\<close> the name of the
  ref that origin/HEAD points to, \<open>tracking\<close> the remote tracking branch configured for a
  local branch. \<open>worktree x\<close> are the files of the working copy when \<open>x\<close> is checked out
  (paths relative to the root of the clone, with their contents), \<open>history x\<close> the commits
  reachable from \<open>x\<close>, newest first. \<open>fetch_ok\<close> and \<open>merge_ok\<close> say whether those engine
  commands succeed. \<open>tools_config x\<close> is what \<^verbatim>\<open>load_tools_config\<close> (of nf_core.utils)
  reads at the root of the clone when \<open>x\<close> is checked out: the name of the configuration
  file and its keys.\<close>

record repo =
  branches :: "string list"
  shas :: "string list"
  HEAD :: string
  origin_HEAD :: "string option"
  tracking :: "(string \<times> string) list"
  fetch_ok :: bool
  merge_ok :: bool
  worktree :: "string \<Rightarrow> files"
  history :: "string \<Rightarrow> commit list"
  tools_config :: "string \<Rightarrow> string \<times> (string \<times> string) list"

datatype local_dir = NotGit | Clone repo

datatype git_call =
    CloneFrom string path
  | Fetch path
  | Checkout path string
  | Merge path string

text \<open>The state of the process and of its surroundings: the two class attributes of
  \<^verbatim>\<open>ModulesRepo\<close>, the directories of the local cache, the engine commands issued so far
  (failed ones too), the answers the user will give to the confirmation prompts, and the
  files outside the cache (the pipelines).\<close>

record world =
  local_repo_statuses :: "string \<Rightarrow> bool option"
  no_pull_global :: bool
  cache :: "path \<Rightarrow> local_dir option"
  calls :: "git_call list"
  answers :: "bool list"
  disk :: files

text \<open>What does not change during a run: \<^verbatim>\<open>NFCORE_DIR\<close> and
  \<^verbatim>\<open>repo_full_name_from_remote\<close> (both defined outside this module), and what a clone of
  a remote into a directory yields (\<open>None\<close>: the clone fails).\<close>

record env =
  NFCORE_DIR :: path
  repo_full_name_from_remote :: "string \<Rightarrow> string"
  clone_of :: "string \<Rightarrow> repo option"

text \<open>The attributes of a \<^verbatim>\<open>ModulesRepo\<close> object; \<^verbatim>\<open>self.repo\<close> is the clone found in
  the cache at \<open>local_repo_dir\<close>.\<close>

record ModulesRepo =
  remote_url :: string
  fullname :: string
  local_repo_dir :: path
  branch :: string
  repo_path :: string
  modules_dir :: path
  subworkflows_dir :: path

definition NF_CORE_MODULES_NAME :: string where
  "NF_CORE_MODULES_NAME = ''nf-core''"

definition NF_CORE_MODULES_REMOTE :: string where
  "NF_CORE_MODULES_REMOTE = ''https://github.com/nf-core/modules.git''"

definition NF_CORE_MODULES_DEFAULT_BRANCH :: string where
  "NF_CORE_MODULES_DEFAULT_BRANCH = ''master''"

text \<open>The start of a process: the class attributes as the class body sets them.\<close>

definition process_start :: "(path \<Rightarrow> local_dir option) \<Rightarrow> bool list \<Rightarrow> files \<Rightarrow> world" where
  "process_start c a d =
     \<lparr>local_repo_statuses = Map.empty, no_pull_global = False, cache = c, calls = [],
      answers = a, disk = d\<rparr>"

definition local_repo_synced :: "string \<Rightarrow> world \<Rightarrow> bool" where
  "local_repo_synced repo_name w =
     (case local_repo_statuses w repo_name of None \<Rightarrow> False | Some up_to_date \<Rightarrow> up_to_date)"

definition update_local_repo_status :: "string \<Rightarrow> bool \<Rightarrow> world \<Rightarrow> world" where
  "update_local_repo_status repo_name up_to_date w =
     w\<lparr>local_repo_statuses := (local_repo_statuses w)(repo_name \<mapsto> up_to_date)\<rparr>"

subsection \<open>Engine commands\<close>

text \<open>\<^verbatim>\<open>repo.git.checkout(x)\<close> in the clone at \<open>d\<close>: it moves the active ref when the
  engine resolves \<open>x\<close> and fails without moving it otherwise.\<close>

definition git_checkout :: "path \<Rightarrow> string \<Rightarrow> world \<Rightarrow> (error + unit) \<times> world" where
  "git_checkout d x w =
     (let w1 = w\<lparr>calls := calls w @ [Checkout d x]\<rparr> in
      case cache w d of
        Some (Clone r) \<Rightarrow>
          if x \<in> set (branches r) \<or> x \<in> set (shas r)
          then (Inr (), w1\<lparr>cache := (cache w)(d \<mapsto> Clone (r\<lparr>HEAD := x\<rparr>))\<rparr>)
          else (Inl GitCommandError, w1)
      | _ \<Rightarrow> (Inl GitCommandError, w1))"

definition git_fetch :: "path \<Rightarrow> world \<Rightarrow> (error + unit) \<times> world" where
  "git_fetch d w =
     (let w1 = w\<lparr>calls := calls w @ [Fetch d]\<rparr> in
      case cache w d of
        Some (Clone r) \<Rightarrow> if fetch_ok r then (Inr (), w1) else (Inl GitCommandError, w1)
      | _ \<Rightarrow> (Inl GitCommandError, w1))"

definition git_merge :: "path \<Rightarrow> string \<Rightarrow> world \<Rightarrow> (error + unit) \<times> world" where
  "git_merge d name w =
     (let w1 = w\<lparr>calls := calls w @ [Merge d name]\<rparr> in
      case cache w d of
        Some (Clone r) \<Rightarrow> if merge_ok r then (Inr (), w1) else (Inl GitCommandError, w1)
      | _ \<Rightarrow> (Inl GitCommandError, w1))"

text \<open>\<^verbatim>\<open>git.Repo.clone_from(remote, to_path)\<close>.\<close>

definition clone_from :: "env \<Rightarrow> string \<Rightarrow> path \<Rightarrow> world \<Rightarrow> (error + unit) \<times> world" where
  "clone_from E remote to_path w =
     (let w1 = w\<lparr>calls := calls w @ [CloneFrom remote to_path]\<rparr> in
      case clone_of E remote of
        None \<Rightarrow> (Inl GitCommandError, w1)
      | Some r \<Rightarrow> (Inr (), w1\<lparr>cache := (cache w)(to_path \<mapsto> Clone r)\<rparr>))"

text \<open>\<^verbatim>\<open>git.Repo(path)\<close> opens a directory that holds a repository.\<close>

definition git_Repo :: "path \<Rightarrow> world \<Rightarrow> error + repo" where
  "git_Repo d w =
     (case cache w d of Some (Clone r) \<Rightarrow> Inr r | _ \<Rightarrow> Inl InvalidGitRepositoryError)"

text \<open>\<^verbatim>\<open>repo.iter_commits(max_count=depth, paths=p)\<close>: the history of the active ref,
  restricted to the commits that change \<open>p\<close> or a file below it, cut after \<open>depth\<close>
  commits when a depth is given.\<close>

definition touches :: "path \<Rightarrow> commit \<Rightarrow> bool" where
  "touches p c = list_ex (\<lambda>f. f = p \<or> strip_prefix (p @ ''/'') f \<noteq> None) (changed c)"

definition max_count :: "nat option \<Rightarrow> 'a list \<Rightarrow> 'a list" where
  "max_count depth xs = (case depth of None \<Rightarrow> xs | Some n \<Rightarrow> take n xs)"

definition iter_commits :: "path \<Rightarrow> nat option \<Rightarrow> path \<Rightarrow> world \<Rightarrow> commit list" where
  "iter_commits d depth p w =
     (case cache w d of
        Some (Clone r) \<Rightarrow> max_count depth (filter (touches p) (history r (HEAD r)))
      | _ \<Rightarrow> [])"

subsection \<open>The file system\<close>

text \<open>The files a handle sees: those of the working copy of its clone, by full path, and
  the files outside the cache.\<close>

definition cache_files :: "path \<Rightarrow> world \<Rightarrow> files" where
  "cache_files d w =
     (case cache w d of
        Some (Clone r) \<Rightarrow> map (\<lambda>(p, c). (join2 d p, c)) (worktree r (HEAD r))
      | _ \<Rightarrow> [])"

definition all_files :: "path \<Rightarrow> world \<Rightarrow> files" where
  "all_files d w = cache_files d w @ disk w"

definition rstrip_slash :: "path \<Rightarrow> path" where
  "rstrip_slash p = rev (dropWhile (\<lambda>c. c = CHR ''/'') (rev p))"

definition os_path_dirname :: "path \<Rightarrow> path" where
  "os_path_dirname p =
     (case rfind CHR ''/'' p of
        None \<Rightarrow> []
      | Some i \<Rightarrow>
          (let head = take (i + 1) p in
           if set head \<subseteq> {CHR ''/''} then head else rstrip_slash head))"

definition os_path_basename :: "path \<Rightarrow> path" where
  "os_path_basename p = (case rfind CHR ''/'' p of None \<Rightarrow> p | Some i \<Rightarrow> drop (i + 1) p)"

definition below :: "path \<Rightarrow> path \<Rightarrow> bool" where
  "below start p = (p = rstrip_slash start \<or> strip_prefix (rstrip_slash start @ ''/'') p \<noteq> None)"

text \<open>\<^verbatim>\<open>os.walk(top)\<close>: one entry for each directory at or below the start with the names of
  the files directly in it. The names of the subdirectories are left out (the caller
  ignores them), and so are the directories that hold no file directly: the caller keeps
  only directories where a file name is found.\<close>

definition os_walk :: "files \<Rightarrow> path \<Rightarrow> (path \<times> string list) list" where
  "os_walk fs start =
     map (\<lambda>dirpath. (dirpath, map os_path_basename
                                (filter (\<lambda>f. os_path_dirname f = dirpath) (map fst fs))))
         (remdups (filter (below start) (map os_path_dirname (map fst fs))))"

text \<open>\<^verbatim>\<open>os.path.relpath(p, start)\<close> for a directory \<open>p\<close> that \<^verbatim>\<open>os.walk(start)\<close> gives.\<close>

definition os_path_relpath :: "path \<Rightarrow> path \<Rightarrow> path" where
  "os_path_relpath p start =
     (if p = rstrip_slash start then ''.''
      else (case strip_prefix (rstrip_slash start @ ''/'') p of Some rel \<Rightarrow> rel | None \<Rightarrow> p))"

text \<open>\<^verbatim>\<open>os.listdir(d)\<close>: the names directly in \<open>d\<close> (the engine's own \<^verbatim>\<open>.git\<close> directory
  is left out).\<close>

definition os_listdir :: "files \<Rightarrow> path \<Rightarrow> string list" where
  "os_listdir fs d =
     remdups (List.map_filter
       (\<lambda>f. map_option (takeWhile (\<lambda>c. c \<noteq> CHR ''/'')) (strip_prefix (rstrip_slash d @ ''/'') f))
       (map fst fs))"

definition path_exists :: "files \<Rightarrow> path \<Rightarrow> bool" where
  "path_exists fs p = list_ex (\<lambda>f. f = p \<or> below p (os_path_dirname f)) (map fst fs)"

text \<open>\<^verbatim>\<open>shutil.copytree(src, dst)\<close>: the destination must not exist; every file below
  \<open>src\<close> is written below \<open>dst\<close>. The result is the list of the files written.\<close>

definition copytree :: "files \<Rightarrow> path \<Rightarrow> path \<Rightarrow> error + files" where
  "copytree fs src dst =
     (if \<not> path_exists fs src then Inl FileNotFoundError
      else if path_exists fs dst then Inl FileExistsError
      else Inr (List.map_filter
                  (\<lambda>(f, c). map_option (\<lambda>rel. (join2 dst rel, c))
                                        (strip_prefix (rstrip_slash src @ ''/'') f))
                  fs))"


section \<open>The methods of ModulesRepo\<close>

text \<open>Every method takes the state of the world and gives its result, or the exception
  it raises, with the state it leaves: an exception undoes nothing. The progress bars
  change no state and are left out.\<close>

definition checkout_branch :: "ModulesRepo \<Rightarrow> world \<Rightarrow> (error + unit) \<times> world" where
  "checkout_branch self w = git_checkout (local_repo_dir self) (branch self) w"

definition checkout :: "ModulesRepo \<Rightarrow> string \<Rightarrow> world \<Rightarrow> (error + unit) \<times> world" where
  "checkout self commit w = git_checkout (local_repo_dir self) commit w"

definition branch_exists :: "ModulesRepo \<Rightarrow> world \<Rightarrow> (error + unit) \<times> world" where
  "branch_exists self w =
     (case checkout_branch self w of
        (Inl e, w1) \<Rightarrow>
          (if e = GitCommandError
           then (Inl (LookupError (''Branch '' @ squote (branch self) @ '' not found in '' @
                                    squote (remote_url self))), w1)
           else (Inl e, w1))
      | (Inr u, w1) \<Rightarrow> (Inr u, w1))"

text \<open>origin/HEAD is looked up among the refs (\<^verbatim>\<open>next\<close> raises when it is not there),
  and the name of its target must split into exactly two parts at the slash.\<close>

definition get_default_branch :: "ModulesRepo \<Rightarrow> world \<Rightarrow> error + string" where
  "get_default_branch self w =
     (case cache w (local_repo_dir self) of
        Some (Clone r) \<Rightarrow>
          (case origin_HEAD r of
             None \<Rightarrow> Inl StopIteration
           | Some origin_head \<Rightarrow>
               (case split_on CHR ''/'' origin_head of
                  [_, b] \<Rightarrow> Inr b
                | _ \<Rightarrow> Inl ValueError))
      | _ \<Rightarrow> Inl StopIteration)"

definition setup_branch :: "ModulesRepo \<Rightarrow> string option \<Rightarrow> world \<Rightarrow> (error + ModulesRepo) \<times> world" where
  "setup_branch self branch_arg w =
     (case (case branch_arg of
              None \<Rightarrow>
                if remote_url self = NF_CORE_MODULES_REMOTE then Inr ''master''
                else get_default_branch self w
            | Some b \<Rightarrow> Inr b) of
        Inl e \<Rightarrow> (Inl e, w)
      | Inr b \<Rightarrow>
          (case branch_exists (self\<lparr>branch := b\<rparr>) w of
             (Inl e, w1) \<Rightarrow> (Inl e, w1)
           | (Inr _, w1) \<Rightarrow> (Inr (self\<lparr>branch := b\<rparr>), w1)))"

definition verify_branch :: "ModulesRepo \<Rightarrow> world \<Rightarrow> error + unit" where
  "verify_branch self w =
     (let dir_names = os_listdir (all_files (local_repo_dir self) w) (local_repo_dir self) in
      if ''modules'' \<notin> set dir_names
      then Inl (LookupError
             (''Repository '' @ squote (remote_url self) @ '' ('' @ branch self @
              '') does not contain the '' @ squote ''modules/'' @ '' directory'' @
              (if ''software'' \<in> set dir_names
               then ''.'' @ [newline] @ ''As of nf-core/tools version 2.0, the '' @
                    squote ''software/'' @ '' directory should be renamed to '' @
                    squote ''modules/''
               else [])))
      else Inr ())"

text \<open>For a component type that is neither of the two, \<^verbatim>\<open>directory\<close> is not bound when
  the walk reads it.\<close>

definition get_avail_components :: "ModulesRepo \<Rightarrow> string \<Rightarrow> bool \<Rightarrow> world \<Rightarrow> (error + string list) \<times> world" where
  "get_avail_components self component_type do_checkout w =
     (case (if do_checkout then checkout_branch self w else (Inr (), w)) of
        (Inl e, w1) \<Rightarrow> (Inl e, w1)
      | (Inr _, w1) \<Rightarrow>
          (case (if component_type = ''modules'' then Some (modules_dir self)
                 else if component_type = ''subworkflows'' then Some (subworkflows_dir self)
                 else None) of
             None \<Rightarrow> (Inl UnboundLocalError, w1)
           | Some directory \<Rightarrow>
               (Inr (map (\<lambda>(dirpath, file_names). os_path_relpath dirpath directory)
                      (filter (\<lambda>(dirpath, file_names). ''main.nf'' \<in> set file_names)
                         (os_walk (all_files (local_repo_dir self) w1) directory))), w1)))"

definition component_exists :: "ModulesRepo \<Rightarrow> string \<Rightarrow> string \<Rightarrow> bool \<Rightarrow> world \<Rightarrow> (error + bool) \<times> world" where
  "component_exists self component_name component_type do_checkout w =
     (case get_avail_components self component_type do_checkout w of
        (Inl e, w1) \<Rightarrow> (Inl e, w1)
      | (Inr names, w1) \<Rightarrow> (Inr (component_name \<in> set names), w1))"

text \<open>\<open>None\<close> is Python's \<^verbatim>\<open>None\<close>, which the method returns for any other type.\<close>

definition get_component_dir :: "ModulesRepo \<Rightarrow> string \<Rightarrow> string \<Rightarrow> path option" where
  "get_component_dir self component_name component_type =
     (if component_type = ''modules'' then Some (os_path_join (modules_dir self) [component_name])
      else if component_type = ''subworkflows''
      then Some (os_path_join (subworkflows_dir self) [component_name])
      else None)"

definition install_component :: "ModulesRepo \<Rightarrow> string \<Rightarrow> path \<Rightarrow> string \<Rightarrow> string \<Rightarrow> world \<Rightarrow> (error + bool) \<times> world" where
  "install_component self component_name install_dir commit component_type w =
     (case checkout self commit w of
        (Inl e, w1) \<Rightarrow> (if e = GitCommandError then (Inr False, w1) else (Inl e, w1))
      | (Inr _, w1) \<Rightarrow>
          (case component_exists self component_name component_type False w1 of
             (Inl e, w2) \<Rightarrow> (Inl e, w2)
           | (Inr found, w2) \<Rightarrow>
               if \<not> found then (Inr False, w2)
               else
                 (case get_component_dir self component_name component_type of
                    None \<Rightarrow> (Inl TypeError, w2)
                  | Some src \<Rightarrow>
                      (case copytree (all_files (local_repo_dir self) w2) src
                              (join2 install_dir component_name) of
                         Inl e \<Rightarrow> (Inl e, w2)
                       | Inr written \<Rightarrow>
                           (case checkout_branch self (w2\<lparr>disk := disk w2 @ written\<rparr>) of
                              (Inl e, w3) \<Rightarrow> (Inl e, w3)
                            | (Inr _, w3) \<Rightarrow> (Inr True, w3))))))"



record commit_info =
  git_sha :: string
  trunc_message :: string

definition commit_record :: "commit \<Rightarrow> commit_info" where
  "commit_record c =
     \<lparr>git_sha = hexsha c, trunc_message = takeWhile (\<lambda>x. x \<noteq> newline) (message c)\<rparr>"

definition get_component_git_log :: "ModulesRepo \<Rightarrow> string \<Rightarrow> string \<Rightarrow> nat option \<Rightarrow> world \<Rightarrow> (error + commit_info list) \<times> world" where
  "get_component_git_log self component_name component_type depth w =
     (case checkout_branch self w of
        (Inl e, w1) \<Rightarrow> (Inl e, w1)
      | (Inr _, w1) \<Rightarrow>
          (let commits_new =
                 map commit_record
                   (iter_commits (local_repo_dir self) depth
                      (os_path_join component_type [repo_path self, component_name]) w1);
               commits_old =
                 (if component_type = ''modules''
                  then map commit_record
                         (iter_commits (local_repo_dir self) depth
                            (os_path_join ''modules'' [component_name]) w1)
                  else [])
           in (Inr (commits_new @ commits_old), w1)))"

definition get_latest_component_version :: "ModulesRepo \<Rightarrow> string \<Rightarrow> string \<Rightarrow> world \<Rightarrow> (error + string) \<times> world" where
  "get_latest_component_version self component_name component_type w =
     (case get_component_git_log self component_name component_type (Some 1) w of
        (Inl e, w1) \<Rightarrow> (Inl e, w1)
      | (Inr [], w1) \<Rightarrow> (Inl IndexError, w1)
      | (Inr (c # _), w1) \<Rightarrow> (Inr (git_sha c), w1))"

section \<open>Setting up the local clone\<close>

text \<open>\<^verbatim>\<open>self.repo.active_branch.tracking_branch()\<close>: the active branch is not defined
  when the active ref is a commit rather than a branch.\<close>

definition active_tracking_branch :: "path \<Rightarrow> world \<Rightarrow> error + string option" where
  "active_tracking_branch d w =
     (case cache w d of
        Some (Clone r) \<Rightarrow>
          if HEAD r \<in> set (branches r) then Inr (map_of (tracking r) (HEAD r)) else Inl TypeError
      | _ \<Rightarrow> Inl TypeError)"

definition shutil_rmtree :: "path \<Rightarrow> world \<Rightarrow> (error + unit) \<times> world" where
  "shutil_rmtree d w =
     (case cache w d of
        None \<Rightarrow> (Inl FileNotFoundError, w)
      | Some _ \<Rightarrow> (Inr (), w\<lparr>cache := (cache w)(d := None)\<rparr>))"

text \<open>\<^verbatim>\<open>rich.prompt.Confirm.ask\<close> takes the next answer of the user; with no input left
  the read fails.\<close>

definition confirm_ask :: "world \<Rightarrow> (error + bool) \<times> world" where
  "confirm_ask w =
     (case answers w of
        [] \<Rightarrow> (Inl EOFError, w)
      | a # rest \<Rightarrow> (Inr a, w\<lparr>answers := rest\<rparr>))"

text \<open>The body of the \<^verbatim>\<open>try\<close> block of \<^verbatim>\<open>setup_local_repo\<close>.\<close>

definition setup_local_repo_try :: "env \<Rightarrow> ModulesRepo \<Rightarrow> string \<Rightarrow> string option \<Rightarrow> world \<Rightarrow> (error + ModulesRepo) \<times> world" where
  "setup_local_repo_try E self remote branch_arg w =
     (if cache w (local_repo_dir self) = None then
        (case clone_from E remote (local_repo_dir self) w of
           (Inl e, w1) \<Rightarrow>
             (if e = GitCommandError
              then (Inl (LookupError (''Failed to clone from the remote: `'' @ remote @ ''`'')), w1)
              else (Inl e, w1))
         | (Inr _, w1) \<Rightarrow>
             setup_branch self branch_arg (update_local_repo_status (fullname self) True w1))
      else
        (case git_Repo (local_repo_dir self) w of
           Inl e \<Rightarrow> (Inl e, w)
         | Inr _ \<Rightarrow>
             (let w1 = (if no_pull_global w
                        then update_local_repo_status (fullname self) True w else w)
              in case (if \<not> local_repo_synced (fullname self) w1
                       then (case git_fetch (local_repo_dir self) w1 of
                               (Inl e, w2) \<Rightarrow> (Inl e, w2)
                             | (Inr _, w2) \<Rightarrow>
                                 (Inr (), update_local_repo_status (fullname self) True w2))
                       else (Inr (), w1)) of
                   (Inl e, w2) \<Rightarrow> (Inl e, w2)
                 | (Inr _, w2) \<Rightarrow>
                     (case setup_branch self branch_arg w2 of
                        (Inl e, w3) \<Rightarrow> (Inl e, w3)
                      | (Inr self1, w3) \<Rightarrow>
                          (case active_tracking_branch (local_repo_dir self) w3 of
                             Inl e \<Rightarrow> (Inl e, w3)
                           | Inr None \<Rightarrow>
                               (Inl (LookupError
                                  (''There is no remote tracking branch '' @
                                   squote (branch self1) @ '' in '' @
                                   squote (remote_url self1))), w3)
                           | Inr (Some tracking_branch) \<Rightarrow>
                               (case git_merge (local_repo_dir self) tracking_branch w3 of
                                  (Inl e, w4) \<Rightarrow> (Inl e, w4)
                                | (Inr _, w4) \<Rightarrow> (Inr self1, w4)))))))"

lemma answers_update_local_repo_status [simp]:
  "answers (update_local_repo_status n b w) = answers w"
  by (simp add: update_local_repo_status_def)

lemma answers_git_checkout: "git_checkout d x w = (r, w1) \<Longrightarrow> answers w1 = answers w"
  by (auto simp: git_checkout_def Let_def split: option.splits local_dir.splits if_splits)

lemma answers_git_fetch: "git_fetch d w = (r, w1) \<Longrightarrow> answers w1 = answers w"
  by (auto simp: git_fetch_def Let_def split: option.splits local_dir.splits if_splits)

lemma answers_git_merge: "git_merge d n w = (r, w1) \<Longrightarrow> answers w1 = answers w"
  by (auto simp: git_merge_def Let_def split: option.splits local_dir.splits if_splits)

lemma answers_clone_from: "clone_from E u d w = (r, w1) \<Longrightarrow> answers w1 = answers w"
  by (auto simp: clone_from_def Let_def split: option.splits)

lemma answers_branch_exists: "branch_exists self w = (r, w1) \<Longrightarrow> answers w1 = answers w"
  by (auto simp: branch_exists_def checkout_branch_def
           split: prod.splits sum.splits if_splits dest: answers_git_checkout)

lemma answers_setup_branch: "setup_branch self b w = (r, w1) \<Longrightarrow> answers w1 = answers w"
  by (auto simp: setup_branch_def split: prod.splits sum.splits dest: answers_branch_exists)

lemma answers_setup_local_repo_try:
  assumes "setup_local_repo_try E self remote b w = (res, w')"
  shows "answers w' = answers w"
proof (cases "cache w (local_repo_dir self) = None")
  case True
  obtain r w1 where c: "clone_from E remote (local_repo_dir self) w = (r, w1)"
    by (cases "clone_from E remote (local_repo_dir self) w")
  have a1: "answers w1 = answers w"
    using answers_clone_from [OF c] .
  show ?thesis
  proof (cases r)
    case (Inl e)
    then show ?thesis using True c a1 assms
      by (auto simp: setup_local_repo_try_def split: if_splits)
  next
    case (Inr u)
    then have "setup_branch self b (update_local_repo_status (fullname self) True w1) = (res, w')"
      using True c assms by (simp add: setup_local_repo_try_def)
    from answers_setup_branch [OF this] show ?thesis using a1 by simp
  qed
next
  case False
  then have ne: "(cache w (local_repo_dir self) = None) = False" by simp
  show ?thesis
  proof (cases "git_Repo (local_repo_dir self) w")
    case (Inl e)
    then show ?thesis using assms by (simp add: setup_local_repo_try_def ne)
  next
    case (Inr r0)
    define w1 where "w1 = (if no_pull_global w
                        then update_local_repo_status (fullname self) True w else w)"
    have a1: "answers w1 = answers w" by (simp add: w1_def)
    define f where "f = (if \<not> local_repo_synced (fullname self) w1
                       then (case git_fetch (local_repo_dir self) w1 of
                               (Inl e, w2) \<Rightarrow> (Inl e, w2)
                             | (Inr _, w2) \<Rightarrow>
                                 (Inr (), update_local_repo_status (fullname self) True w2))
                       else (Inr (), w1))"
    obtain fr w2 where f: "f = (fr, w2)" by (cases f)
    have a2: "answers w2 = answers w"
      using f a1
      by (auto simp: f_def split: prod.splits sum.splits if_splits dest: answers_git_fetch)
    have unf: "setup_local_repo_try E self remote b w =
      (case f of
                   (Inl e, w2) \<Rightarrow> (Inl e, w2)
                 | (Inr _, w2) \<Rightarrow>
                     (case setup_branch self b w2 of
                        (Inl e, w3) \<Rightarrow> (Inl e, w3)
                      | (Inr self1, w3) \<Rightarrow>
                          (case active_tracking_branch (local_repo_dir self) w3 of
                             Inl e \<Rightarrow> (Inl e, w3)
                           | Inr None \<Rightarrow>
                               (Inl (LookupError
                                  (''There is no remote tracking branch '' @
                                   squote (branch self1) @ '' in '' @
                                   squote (remote_url self1))), w3)
                           | Inr (Some tracking_branch) \<Rightarrow>
                               (case git_merge (local_repo_dir self) tracking_branch w3 of
                                  (Inl e, w4) \<Rightarrow> (Inl e, w4)
                                | (Inr _, w4) \<Rightarrow> (Inr self1, w4)))))"
      using Inr by (simp add: setup_local_repo_try_def f_def w1_def Let_def ne)
    show ?thesis
    proof (cases fr)
      case (Inl e)
      then show ?thesis using unf f a2 assms by simp
    next
      case (Inr u)
      obtain sr w3 where sb: "setup_branch self b w2 = (sr, w3)"
        by (cases "setup_branch self b w2")
      have a3: "answers w3 = answers w"
        using answers_setup_branch [OF sb] a2 by simp
      show ?thesis
        using unf f Inr sb a3 assms
        by (auto split: sum.splits option.splits prod.splits dest: answers_git_merge)
    qed
  qed
qed

lemma answers_shutil_rmtree: "shutil_rmtree d w = (r, w1) \<Longrightarrow> answers w1 = answers w"
  by (auto simp: shutil_rmtree_def split: option.splits)

text \<open>\<^verbatim>\<open>setup_local_repo\<close>: an engine error in the body is answered by the offer to delete
  the local directory and to start again.\<close>

function setup_local_repo :: "env \<Rightarrow> ModulesRepo \<Rightarrow> string \<Rightarrow> string option \<Rightarrow> world \<Rightarrow> (error + ModulesRepo) \<times> world" where
  "setup_local_repo E self remote branch_arg w =
     (case setup_local_repo_try E
             (self\<lparr>local_repo_dir := os_path_join (NFCORE_DIR E) [fullname self]\<rparr>)
             remote branch_arg w of
        (Inr self1, w1) \<Rightarrow> (Inr self1, w1)
      | (Inl e, w1) \<Rightarrow>
          if e = GitCommandError \<or> e = InvalidGitRepositoryError then
            (case confirm_ask w1 of
               (Inl e1, w2) \<Rightarrow> (Inl e1, w2)
             | (Inr a, w2) \<Rightarrow>
                 if a then
                   (case shutil_rmtree (os_path_join (NFCORE_DIR E) [fullname self]) w2 of
                      (Inl e2, w3) \<Rightarrow> (Inl e2, w3)
                    | (Inr _, w3) \<Rightarrow>
                        setup_local_repo E
                          (self\<lparr>local_repo_dir := os_path_join (NFCORE_DIR E) [fullname self]\<rparr>)
                          remote branch_arg w3)
                 else (Inl (LookupError ''Exiting due to error with local modules git repo''), w2))
          else (Inl e, w1))"
  by pat_completeness auto
termination
proof (relation "measure (\<lambda>(E, self, remote, b, w). length (answers w))")
  show "wf (measure (\<lambda>(E, self, remote, b, w). length (answers w)))" by simp
next
  fix E :: env and self :: ModulesRepo and remote :: string and branch_arg :: "string option"
    and w :: world and x1 w1 e x2 w2 a x3 w3 u
  assume t: "(x1, w1) = setup_local_repo_try E
             (self\<lparr>local_repo_dir := os_path_join (NFCORE_DIR E) [fullname self]\<rparr>)
             remote branch_arg w"
    and c: "(x2, w2) = confirm_ask w1"
    and r: "(x3, w3) = shutil_rmtree (os_path_join (NFCORE_DIR E) [fullname self]) w2"
    and x2: "x2 = Inr a"
  have 1: "answers w1 = answers w"
    using answers_setup_local_repo_try [OF t [symmetric]] .
  have 2: "length (answers w2) < length (answers w1)"
    using c x2 by (auto simp: confirm_ask_def split: list.splits)
  have 3: "answers w3 = answers w2"
    using answers_shutil_rmtree [OF r [symmetric]] .
  show "((E, self\<lparr>local_repo_dir := os_path_join (NFCORE_DIR E) [fullname self]\<rparr>, remote, branch_arg, w3),
         (E, self, remote, branch_arg, w)) \<in> measure (\<lambda>(E, self, remote, b, w). length (answers w))"
    using 1 2 3 by simp
qed

text \<open>\<^verbatim>\<open>load_tools_config(self.local_repo_dir)\<close> (of nf_core.utils): without a file it
  gives the default file name and no key.\<close>

definition load_tools_config :: "path \<Rightarrow> world \<Rightarrow> string \<times> (string \<times> string) list" where
  "load_tools_config d w =
     (case cache w d of
        Some (Clone r) \<Rightarrow> tools_config r (HEAD r)
      | _ \<Rightarrow> (''.nf-core.yml'', []))"

text \<open>\<^verbatim>\<open>ModulesRepo.__init__(remote_url, branch, no_pull)\<close>. The attributes a new object
  does not have yet are empty strings until they are assigned.\<close>

definition ModulesRepo_init :: "env \<Rightarrow> string option \<Rightarrow> string option \<Rightarrow> bool \<Rightarrow> world \<Rightarrow> (error + ModulesRepo) \<times> world" where
  "ModulesRepo_init E remote_url_arg branch_arg no_pull w =
     (let w0 = w\<lparr>no_pull_global := (no_pull_global w \<or> no_pull)\<rparr>;
          url = (case remote_url_arg of None \<Rightarrow> NF_CORE_MODULES_REMOTE | Some u \<Rightarrow> u);
          self = \<lparr>remote_url = url, fullname = repo_full_name_from_remote E url,
                  local_repo_dir = [], branch = [], repo_path = [], modules_dir = [],
                  subworkflows_dir = []\<rparr>
      in case setup_local_repo E self url branch_arg w0 of
           (Inl e, w1) \<Rightarrow> (Inl e, w1)
         | (Inr self1, w1) \<Rightarrow>
             (case load_tools_config (local_repo_dir self1) w1 of
                (config_fn_name, repo_config) \<Rightarrow>
                  (case map_of repo_config ''org_path'' of
                     None \<Rightarrow>
                       (Inl (UserWarning (squote ''org_path'' @ '' key not present in '' @
                                          config_fn_name)), w1)
                   | Some org_path \<Rightarrow>
                       (let self2 = self1\<lparr>repo_path := org_path\<rparr> in
                        case (if repo_path self2 \<noteq> NF_CORE_MODULES_NAME \<or> branch self2 \<noteq> []
                              then verify_branch self2 w1 else Inr ()) of
                          Inl e \<Rightarrow> (Inl e, w1)
                        | Inr _ \<Rightarrow>
                            (Inr (self2\<lparr>modules_dir :=
                                          os_path_join (local_repo_dir self2) [''modules'', repo_path self2],
                                        subworkflows_dir :=
                                          os_path_join (local_repo_dir self2) [''subworkflows'', repo_path self2]\<rparr>),
                             w1)))))"

section \<open>Observations and running examples\<close>





text \<open>The active ref of the clone at a directory; the files a handle with that clone sees
  when a given ref is checked out; the component names the walk of
  \<^verbatim>\<open>get_avail_components\<close> finds in a set of files; and a running example: a clone of the
  canonical registry whose commit c1 has no component yet.\<close>

definition active_ref :: "path \<Rightarrow> world \<Rightarrow> string option" where
  "active_ref d w = (case cache w d of Some (Clone r) \<Rightarrow> Some (HEAD r) | _ \<Rightarrow> None)"

definition files_at :: "path \<Rightarrow> string \<Rightarrow> world \<Rightarrow> files" where
  "files_at d x w =
     (case cache w d of
        Some (Clone r) \<Rightarrow> map (\<lambda>(p, c). (join2 d p, c)) (worktree r x)
      | _ \<Rightarrow> []) @ disk w"

definition components_in :: "files \<Rightarrow> path \<Rightarrow> string list" where
  "components_in fs directory =
     map (\<lambda>(dirpath, file_names). os_path_relpath dirpath directory)
       (filter (\<lambda>(dirpath, file_names). ''main.nf'' \<in> set file_names) (os_walk fs directory))"

definition example_worktree :: "string \<Rightarrow> files" where
  "example_worktree x =
     (if x = ''c1'' then [(''README.md'', ''registry'')]
      else if x = ''c2'' then
        [(''README.md'', ''registry''),
         (''modules/nf-core/fastqc/main.nf'', ''process FASTQC v1''),
         (''modules/nf-core/fastqc/meta.yml'', ''name: fastqc'')]
      else
        [(''README.md'', ''registry''),
         (''modules/nf-core/fastqc/main.nf'', ''process FASTQC v2''),
         (''modules/nf-core/fastqc/meta.yml'', ''name: fastqc'')])"

definition example_history :: "string \<Rightarrow> commit list" where
  "example_history x =
     [\<lparr>hexsha = ''c3'', message = ''bump fastqc'' @ [newline] @ ''details'',
       changed = [''modules/nf-core/fastqc/main.nf'']\<rparr>,
      \<lparr>hexsha = ''c2'', message = ''move fastqc'',
       changed = [''modules/fastqc/main.nf'', ''modules/nf-core/fastqc/main.nf'']\<rparr>,
      \<lparr>hexsha = ''c1'', message = ''add fastqc'', changed = [''modules/fastqc/main.nf'']\<rparr>,
      \<lparr>hexsha = ''c0'', message = ''init'', changed = [''README.md'']\<rparr>]"

definition example_repo :: repo where
  "example_repo =
     \<lparr>branches = [''master''], shas = [''c0'', ''c1'', ''c2'', ''c3''], HEAD = ''master'',
      origin_HEAD = Some ''origin/master'', tracking = [(''master'', ''origin/master'')],
      fetch_ok = True, merge_ok = True, worktree = example_worktree,
      history = example_history,
      tools_config = (\<lambda>x. (''.nf-core.yml'', [(''org_path'', ''nf-core'')]))\<rparr>"

definition example_self :: ModulesRepo where
  "example_self =
     \<lparr>remote_url = NF_CORE_MODULES_REMOTE, fullname = ''nf-core/modules'',
      local_repo_dir = ''/cache/nf-core/modules'', branch = ''master'', repo_path = ''nf-core'',
      modules_dir = ''/cache/nf-core/modules/modules/nf-core'',
      subworkflows_dir = ''/cache/nf-core/modules/subworkflows/nf-core''\<rparr>"

definition example_world :: world where
  "example_world =
     \<lparr>local_repo_statuses = Map.empty, no_pull_global = False,
      cache = [''/cache/nf-core/modules'' \<mapsto> Clone example_repo], calls = [],
      answers = [],
      disk = [(''/pipeline/modules/nf-core/fastqc/main.nf'', ''process FASTQC v1'')]\<rparr>"

definition component_root :: "ModulesRepo \<Rightarrow> string \<Rightarrow> path" where
  "component_root self component_type =
     (if component_type = ''modules'' then modules_dir self else subworkflows_dir self)"



text \<open>A second registry for the examples: another remote, with the default branch main.\<close>

definition fork_repo :: repo where
  "fork_repo = example_repo\<lparr>branches := [''main''], HEAD := ''main'',
                 origin_HEAD := Some ''origin/main''\<rparr>"








text \<open>The surroundings of the examples: the cache root, the full names of the two
  remotes and what cloning them gives.\<close>

definition example_env :: env where
  "example_env =
     \<lparr>NFCORE_DIR = ''/cache'',
      repo_full_name_from_remote =
        (\<lambda>url. if url = NF_CORE_MODULES_REMOTE then ''nf-core/modules'' else ''fork''),
      clone_of =
        (\<lambda>url. if url = NF_CORE_MODULES_REMOTE then Some example_repo
               else if url = ''https://example.org/fork.git'' then Some fork_repo
               else None)\<rparr>"

text \<open>Three constructions for the examples: the first handle of a process with an empty
  cache, a second handle for the same remote right after it, and a handle on a clone
  that is there from an earlier process.\<close>

definition first_handle :: "(error + ModulesRepo) \<times> world" where
  "first_handle = ModulesRepo_init example_env None None False (process_start Map.empty [] [])"




text \<open>A registry in the layout of before version 2.0, served under the canonical remote:
  a software directory and no modules directory.\<close>

definition legacy_repo :: repo where
  "legacy_repo =
     example_repo\<lparr>worktree := (\<lambda>x. [(''README.md'', ''registry''),
                                    (''software/fastqc/main.nf'', ''process FASTQC'')])\<rparr>"

definition legacy_env :: env where
  "legacy_env = example_env\<lparr>clone_of := (\<lambda>url. Some legacy_repo)\<rparr>"

text \<open>The message of \<^verbatim>\<open>verify_branch\<close>, with the hint about the renamed directory when
  asked for.\<close>

definition verify_branch_message :: "string \<Rightarrow> string \<Rightarrow> bool \<Rightarrow> string" where
  "verify_branch_message url b software =
     ''Repository '' @ squote url @ '' ('' @ b @ '') does not contain the '' @
     squote ''modules/'' @ '' directory'' @
     (if software
      then ''.'' @ [newline] @ ''As of nf-core/tools version 2.0, the '' @
           squote ''software/'' @ '' directory should be renamed to '' @ squote ''modules/''
      else [])"

text \<open>The handle as \<^verbatim>\<open>__init__\<close> has it before the clone is set up.\<close>

definition initial_self :: ModulesRepo where
  "initial_self = \<lparr>remote_url = NF_CORE_MODULES_REMOTE, fullname = ''nf-core/modules'',
                  local_repo_dir = [], branch = [], repo_path = [], modules_dir = [],
                  subworkflows_dir = []\<rparr>"

section \<open>The branches of a remote\<close>











section \<open>Checkouts and the files they show\<close>

lemma git_checkout_ok:
  "cache w d = Some (Clone r) \<Longrightarrow> x \<in> set (branches r) \<or> x \<in> set (shas r) \<Longrightarrow>
   git_checkout d x w =
     (Inr (), w\<lparr>calls := calls w @ [Checkout d x],
                 cache := (cache w)(d \<mapsto> Clone (r\<lparr>HEAD := x\<rparr>))\<rparr>)"
  by (simp add: git_checkout_def)

lemma git_checkout_cases:
  "git_checkout d x w = (res, w1) \<Longrightarrow>
   (res = Inl GitCommandError \<and> w1 = w\<lparr>calls := calls w @ [Checkout d x]\<rparr>) \<or>
   (\<exists>r. res = Inr () \<and> cache w d = Some (Clone r) \<and>
        w1 = w\<lparr>calls := calls w @ [Checkout d x],
               cache := (cache w)(d \<mapsto> Clone (r\<lparr>HEAD := x\<rparr>))\<rparr>)"
  by (auto simp: git_checkout_def Let_def split: option.splits local_dir.splits if_splits)

lemma all_files_after_checkout:
  "cache w d = Some (Clone r) \<Longrightarrow>
   all_files d (w\<lparr>calls := cs, cache := (cache w)(d \<mapsto> Clone (r\<lparr>HEAD := x\<rparr>))\<rparr>) = files_at d x w"
  by (simp add: all_files_def cache_files_def files_at_def)

lemma get_avail_components_no_checkout:
  "component_type = ''modules'' \<or> component_type = ''subworkflows'' \<Longrightarrow>
   get_avail_components self component_type False w =
     (Inr (components_in (all_files (local_repo_dir self) w)
             (component_root self component_type)), w)"
  by (auto simp: get_avail_components_def components_in_def component_root_def)

section \<open>Installing a component\<close>

text \<open>C9. When the component is not among those found under the requested kind at the
  requested commit (which covers a commit the engine cannot check out), install_component
  returns False and leaves every file outside the cache as it was: the copy is not
  reached.\<close>

theorem install_component_absent_fails_without_writing:
  assumes kind: "component_type = ''modules'' \<or> component_type = ''subworkflows''"
    and absent: "component_name \<notin> set (components_in
                   (files_at (local_repo_dir self) commit w)
                   (component_root self component_type))"
  shows "fst (install_component self component_name install_dir commit component_type w) = Inr False \<and>
         disk (snd (install_component self component_name install_dir commit component_type w)) = disk w"
proof -
  obtain res w1 where co: "git_checkout (local_repo_dir self) commit w = (res, w1)"
    by (cases "git_checkout (local_repo_dir self) commit w")
  from git_checkout_cases [OF co] show ?thesis
  proof
    assume "res = Inl GitCommandError \<and> w1 = w\<lparr>calls := calls w @ [Checkout (local_repo_dir self) commit]\<rparr>"
    then show ?thesis using co by (simp add: install_component_def checkout_def)
  next
    assume "\<exists>r. res = Inr () \<and> cache w (local_repo_dir self) = Some (Clone r) \<and>
        w1 = w\<lparr>calls := calls w @ [Checkout (local_repo_dir self) commit],
               cache := (cache w)(local_repo_dir self \<mapsto> Clone (r\<lparr>HEAD := commit\<rparr>))\<rparr>"
    then obtain r where r: "res = Inr ()" "cache w (local_repo_dir self) = Some (Clone r)"
      "w1 = w\<lparr>calls := calls w @ [Checkout (local_repo_dir self) commit],
               cache := (cache w)(local_repo_dir self \<mapsto> Clone (r\<lparr>HEAD := commit\<rparr>))\<rparr>"
      by blast
    have f: "all_files (local_repo_dir self) w1 = files_at (local_repo_dir self) commit w"
      using r(2,3) by (simp add: all_files_after_checkout)
    have ce: "component_exists self component_name component_type False w1 = (Inr False, w1)"
      using absent by (simp add: component_exists_def get_avail_components_no_checkout [OF kind] f)
    have d: "disk w1 = disk w" using r(3) by simp
    show ?thesis using co r(1) ce d by (simp add: install_component_def checkout_def)
  qed
qed

theorem install_component_absent_fails_without_writing_witness:
  "fst (install_component example_self ''fastqc'' ''/pipeline2/modules/nf-core'' ''c1'' ''modules'' example_world) = Inr False \<and>
   disk (snd (install_component example_self ''fastqc'' ''/pipeline2/modules/nf-core'' ''c1'' ''modules'' example_world)) = disk example_world \<and>
   ''fastqc'' \<notin> set (components_in (files_at (local_repo_dir example_self) ''c1'' example_world)
                   (component_root example_self ''modules''))"
proof -
  have h: "''fastqc'' \<notin> set (components_in (files_at (local_repo_dir example_self) ''c1'' example_world)
                   (component_root example_self ''modules''))"
    by code_simp
  show ?thesis
    using install_component_absent_fails_without_writing
            [of "''modules''" "''fastqc''" example_self "''c1''" example_world "''/pipeline2/modules/nf-core''"] h
    by simp
qed

text \<open>C1. On the path where the commit is checked out and the component is absent there,
  \<^verbatim>\<open>install_component\<close> returns False through the early return and the working copy stays
  at the commit: in the example the active ref afterwards is c1, not the branch master.\<close>

theorem install_component_absent_leaves_commit_checked_out:
  "fst (install_component example_self ''fastqc'' ''/pipeline2/modules/nf-core'' ''c1''
          ''modules'' example_world) = Inr False \<and>
   active_ref ''/cache/nf-core/modules''
     (snd (install_component example_self ''fastqc'' ''/pipeline2/modules/nf-core'' ''c1''
             ''modules'' example_world)) = Some ''c1'' \<and>
   active_ref ''/cache/nf-core/modules'' example_world = Some ''master'' \<and>
   branch example_self = ''master''"
  by code_simp

text \<open>The copy step raising (the destination exists) leaves the commit checked out too.\<close>

lemma install_component_copy_fails_leaves_commit_checked_out:
  "fst (install_component example_self ''fastqc'' ''/pipeline/modules/nf-core'' ''c2''
          ''modules'' example_world) = Inl FileExistsError \<and>
   active_ref ''/cache/nf-core/modules''
     (snd (install_component example_self ''fastqc'' ''/pipeline/modules/nf-core'' ''c2''
             ''modules'' example_world)) = Some ''c2''"
  by code_simp

section \<open>Comparing installed files with the registry\<close>





section \<open>The history of a component\<close>

lemma iter_commits_after_checkout:
  "iter_commits d depth p (w\<lparr>calls := cs, cache := (c)(d \<mapsto> Clone (r\<lparr>HEAD := x\<rparr>))\<rparr>) =
   max_count depth (filter (touches p) (history r x))"
  by (simp add: iter_commits_def)

lemma get_component_git_log_ok:
  assumes clone: "cache w (local_repo_dir self) = Some (Clone r)"
    and branch_ok: "branch self \<in> set (branches r) \<or> branch self \<in> set (shas r)"
  shows "fst (get_component_git_log self component_name component_type depth w) =
           Inr (map commit_record
                  (max_count depth
                     (filter (touches (os_path_join component_type [repo_path self, component_name]))
                        (history r (branch self)))) @
                (if component_type = ''modules''
                 then map commit_record
                        (max_count depth
                           (filter (touches (os_path_join ''modules'' [component_name]))
                              (history r (branch self))))
                 else []))"
  using git_checkout_ok [OF clone branch_ok]
  by (simp add: get_component_git_log_def checkout_branch_def Let_def iter_commits_after_checkout)

text \<open>C4. With the branch checked out, \<^verbatim>\<open>get_component_git_log\<close> with depth \<open>n\<close> returns the
  first \<open>n\<close> commits of the history restricted to the path of the current layout, and, for
  the type modules only, after all of them the first \<open>n\<close> commits of the history
  restricted to the path of the legacy layout: the depth caps each of the two lists, so
  the result has min n (current) + min n (legacy) records, up to 2 * n. For any other
  type only the commits of the current layout are returned. Without a depth nothing is
  cut.\<close>

theorem get_component_git_log_depth_per_layout:
  assumes clone: "cache w (local_repo_dir self) = Some (Clone r)"
    and branch_ok: "branch self \<in> set (branches r) \<or> branch self \<in> set (shas r)"
    and new: "new = filter (touches (os_path_join component_type [repo_path self, component_name]))
                      (history r (branch self))"
    and old: "old = filter (touches (os_path_join ''modules'' [component_name]))
                      (history r (branch self))"
  shows "fst (get_component_git_log self component_name component_type (Some n) w) =
           Inr (map commit_record (take n new) @
                (if component_type = ''modules'' then map commit_record (take n old) else [])) \<and>
         length (map commit_record (take n new) @
                 (if component_type = ''modules'' then map commit_record (take n old) else [])) =
           min n (length new) + (if component_type = ''modules'' then min n (length old) else 0) \<and>
         fst (get_component_git_log self component_name component_type None w) =
           Inr (map commit_record new @
                (if component_type = ''modules'' then map commit_record old else []))"
  using get_component_git_log_ok [OF clone branch_ok, of component_name component_type]
  by (simp add: new old max_count_def min_def)

theorem get_component_git_log_depth_per_layout_witness:
  "fst (get_component_git_log example_self ''fastqc'' ''modules'' (Some 1) example_world) =
     Inr [\<lparr>git_sha = ''c3'', trunc_message = ''bump fastqc''\<rparr>,
          \<lparr>git_sha = ''c2'', trunc_message = ''move fastqc''\<rparr>] \<and>
   fst (get_component_git_log example_self ''fastqc'' ''subworkflows'' (Some 1) example_world) =
     Inr []"
proof -
  have clone: "cache example_world (local_repo_dir example_self) = Some (Clone example_repo)"
    by (simp add: example_world_def example_self_def)
  have b_ok: "branch example_self \<in> set (branches example_repo) \<or>
              branch example_self \<in> set (shas example_repo)"
    by (simp add: example_repo_def example_self_def)
  have n: "map commit_record (take 1 (filter (touches (os_path_join ''modules'' [repo_path example_self, ''fastqc'']))
                      (history example_repo (branch example_self)))) = [\<lparr>git_sha = ''c3'', trunc_message = ''bump fastqc''\<rparr>]"
    by code_simp
  have o: "map commit_record (take 1 (filter (touches (os_path_join ''modules'' [''fastqc'']))
                      (history example_repo (branch example_self)))) = [\<lparr>git_sha = ''c2'', trunc_message = ''move fastqc''\<rparr>]"
    by code_simp
  have s: "map commit_record (take 1 (filter (touches (os_path_join ''subworkflows'' [repo_path example_self, ''fastqc'']))
                      (history example_repo (branch example_self)))) = []"
    by code_simp
  have 1: "fst (get_component_git_log example_self ''fastqc'' ''modules'' (Some 1) example_world) =
     Inr [\<lparr>git_sha = ''c3'', trunc_message = ''bump fastqc''\<rparr>,
          \<lparr>git_sha = ''c2'', trunc_message = ''move fastqc''\<rparr>]"
    using get_component_git_log_depth_per_layout [OF clone b_ok refl refl, where component_type = "''modules''" and component_name = "''fastqc''" and n = 1]
    unfolding n o by simp
  have 2: "fst (get_component_git_log example_self ''fastqc'' ''subworkflows'' (Some 1) example_world) =
     Inr []"
    using get_component_git_log_depth_per_layout [OF clone b_ok refl refl, where component_type = "''subworkflows''" and component_name = "''fastqc''" and n = 1]
    unfolding s by simp
  show ?thesis using 1 2 by (rule conjI)
qed

text \<open>C8. \<^verbatim>\<open>get_latest_component_version\<close> returns the commit identifier of the first
  record of the history of depth 1, and raises (IndexError) when that history is empty.
  With the branch checked out this is the newest commit of the component under the
  current layout, for modules else the newest one under the legacy layout, and the call
  fails exactly when there is none.\<close>

theorem get_latest_component_version_first_record:
  assumes clone: "cache w (local_repo_dir self) = Some (Clone r)"
    and branch_ok: "branch self \<in> set (branches r) \<or> branch self \<in> set (shas r)"
    and new: "new = filter (touches (os_path_join component_type [repo_path self, component_name]))
                      (history r (branch self))"
    and old: "old = filter (touches (os_path_join ''modules'' [component_name]))
                      (history r (branch self))"
  shows "fst (get_latest_component_version self component_name component_type w) =
           (case fst (get_component_git_log self component_name component_type (Some 1) w) of
              Inl e \<Rightarrow> Inl e
            | Inr [] \<Rightarrow> Inl IndexError
            | Inr (c # _) \<Rightarrow> Inr (git_sha c)) \<and>
         fst (get_latest_component_version self component_name component_type w) =
           (case new @ (if component_type = ''modules'' then old else []) of
              [] \<Rightarrow> Inl IndexError
            | c # _ \<Rightarrow> Inr (hexsha c))"
proof -
  have a: "fst (get_latest_component_version self component_name component_type w) =
           (case fst (get_component_git_log self component_name component_type (Some 1) w) of
              Inl e \<Rightarrow> Inl e
            | Inr [] \<Rightarrow> Inl IndexError
            | Inr (c # _) \<Rightarrow> Inr (git_sha c))"
    by (simp add: get_latest_component_version_def split: prod.splits sum.splits list.splits)
  have b: "fst (get_component_git_log self component_name component_type (Some 1) w) =
           Inr (map commit_record (take 1 new) @
                (if component_type = ''modules'' then map commit_record (take 1 old) else []))"
    using get_component_git_log_ok [OF clone branch_ok, of component_name component_type "Some 1"]
    by (simp add: new old max_count_def)
  have c: "(case map commit_record (take 1 new) @
                (if component_type = ''modules'' then map commit_record (take 1 old) else []) of
              [] \<Rightarrow> Inl IndexError
            | c # _ \<Rightarrow> Inr (git_sha c)) =
           (case new @ (if component_type = ''modules'' then old else []) of
              [] \<Rightarrow> Inl IndexError
            | c # _ \<Rightarrow> Inr (hexsha c))"
    by (cases new; cases old; simp add: commit_record_def)
  show ?thesis using a b c by simp
qed

theorem get_latest_component_version_first_record_witness:
  "fst (get_latest_component_version example_self ''fastqc'' ''modules'' example_world) = Inr ''c3'' \<and>
   fst (get_latest_component_version example_self ''bwa'' ''modules'' example_world) = Inl IndexError"
proof -
  have clone: "cache example_world (local_repo_dir example_self) = Some (Clone example_repo)"
    by (simp add: example_world_def example_self_def)
  have b_ok: "branch example_self \<in> set (branches example_repo) \<or>
              branch example_self \<in> set (shas example_repo)"
    by (simp add: example_repo_def example_self_def)
  have f: "(case filter (touches (os_path_join ''modules'' [repo_path example_self, ''fastqc'']))
                      (history example_repo (branch example_self)) @
                 (if ''modules'' = ''modules''
                  then filter (touches (os_path_join ''modules'' [''fastqc'']))
                      (history example_repo (branch example_self)) else []) of
              [] \<Rightarrow> Inl IndexError
            | c # _ \<Rightarrow> Inr (hexsha c)) = Inr ''c3''"
    by code_simp
  have g: "(case filter (touches (os_path_join ''modules'' [repo_path example_self, ''bwa'']))
                      (history example_repo (branch example_self)) @
                 (if ''modules'' = ''modules''
                  then filter (touches (os_path_join ''modules'' [''bwa'']))
                      (history example_repo (branch example_self)) else []) of
              [] \<Rightarrow> Inl IndexError
            | c # _ \<Rightarrow> Inr (hexsha c)) = (Inl IndexError :: error + string)"
    by code_simp
  have 1: "fst (get_latest_component_version example_self ''fastqc'' ''modules'' example_world) = Inr ''c3''"
    using get_latest_component_version_first_record [OF clone b_ok refl refl, where component_type = "''modules''" and component_name = "''fastqc''"]
    unfolding f by blast
  have 2: "fst (get_latest_component_version example_self ''bwa'' ''modules'' example_world) = Inl IndexError"
    using get_latest_component_version_first_record [OF clone b_ok refl refl, where component_type = "''modules''" and component_name = "''bwa''"]
    unfolding g by blast
  show ?thesis using 1 2 by (rule conjI)
qed

section \<open>Resolving the branch\<close>








section \<open>What setting up the local clone preserves\<close>

text \<open>A relation between the state before and after that every step of
  \<^verbatim>\<open>setup_local_repo\<close> respects holds between the state before and after the whole call,
  retries included. A fetch is only ever issued for a repository that is not marked as
  synced.\<close>

declare setup_local_repo.simps [simp del]

lemma branch_exists_rel:
  assumes checkout: "\<And>d x w res w1. git_checkout d x w = (res, w1) \<Longrightarrow> R w w1"
    and "branch_exists self w = (res, w')"
  shows "R w w'"
  using assms(2)
  by (auto simp: branch_exists_def checkout_branch_def split: prod.splits sum.splits if_splits
           dest: checkout)

lemma setup_branch_rel:
  assumes refl: "\<And>w. R w w"
    and checkout: "\<And>d x w res w1. git_checkout d x w = (res, w1) \<Longrightarrow> R w w1"
    and sb: "setup_branch self b w = (res, w')"
  shows "R w w'"
proof (cases "case b of
              None \<Rightarrow> if remote_url self = NF_CORE_MODULES_REMOTE then Inr ''master''
                      else get_default_branch self w
            | Some b \<Rightarrow> Inr b")
  case (Inl e)
  then show ?thesis using sb refl by (simp add: setup_branch_def)
next
  case (Inr x)
  obtain br w1 where be: "branch_exists (self\<lparr>branch := x\<rparr>) w = (br, w1)"
    by (cases "branch_exists (self\<lparr>branch := x\<rparr>) w")
  have "R w w1" using branch_exists_rel [where R = R, OF checkout be] .
  moreover have "w' = w1" using sb Inr be by (cases br) (simp_all add: setup_branch_def)
  ultimately show ?thesis by simp
qed

lemma setup_local_repo_try_rel:
  assumes refl: "\<And>w. R w w"
    and trans: "\<And>a b c. R a b \<Longrightarrow> R b c \<Longrightarrow> R a c"
    and checkout: "\<And>d x w res w1. git_checkout d x w = (res, w1) \<Longrightarrow> R w w1"
    and fetch: "\<And>d w res w1. \<not> local_repo_synced (fullname self) w \<Longrightarrow>
                  git_fetch d w = (res, w1) \<Longrightarrow> R w w1"
    and merge: "\<And>d t w res w1. git_merge d t w = (res, w1) \<Longrightarrow> R w w1"
    and clone: "\<And>u d w res w1. clone_from E u d w = (res, w1) \<Longrightarrow> R w w1"
    and upd: "\<And>w. R w (update_local_repo_status (fullname self) True w)"
    and t: "setup_local_repo_try E self remote b w = (res, w')"
  shows "R w w'"
proof (cases "cache w (local_repo_dir self) = None")
  case True
  obtain r w1 where c: "clone_from E remote (local_repo_dir self) w = (r, w1)"
    by (cases "clone_from E remote (local_repo_dir self) w")
  have a1: "R w w1" using clone [OF c] .
  show ?thesis
  proof (cases r)
    case (Inl e)
    then show ?thesis using True c a1 t
      by (auto simp: setup_local_repo_try_def split: if_splits)
  next
    case (Inr u)
    then have sb: "setup_branch self b (update_local_repo_status (fullname self) True w1) = (res, w')"
      using True c t by (simp add: setup_local_repo_try_def)
    have "R (update_local_repo_status (fullname self) True w1) w'"
      using setup_branch_rel [of R, OF refl checkout sb] .
    with a1 upd [of w1] show ?thesis by (blast intro: trans)
  qed
next
  case False
  then have ne: "(cache w (local_repo_dir self) = None) = False" by simp
  show ?thesis
  proof (cases "git_Repo (local_repo_dir self) w")
    case (Inl e)
    then show ?thesis using t refl by (simp add: setup_local_repo_try_def ne)
  next
    case (Inr r0)
    define w1 where "w1 = (if no_pull_global w
                        then update_local_repo_status (fullname self) True w else w)"
    have a1: "R w w1" using refl upd by (simp add: w1_def)
    define f where "f = (if \<not> local_repo_synced (fullname self) w1
                       then (case git_fetch (local_repo_dir self) w1 of
                               (Inl e, w2) \<Rightarrow> (Inl e, w2)
                             | (Inr _, w2) \<Rightarrow>
                                 (Inr (), update_local_repo_status (fullname self) True w2))
                       else (Inr (), w1))"
    obtain fr w2 where f: "f = (fr, w2)" by (cases f)
    have "R w1 w2"
    proof (cases "local_repo_synced (fullname self) w1")
      case True
      then show ?thesis using f refl by (simp add: f_def)
    next
      case False
      obtain gr wf where g: "git_fetch (local_repo_dir self) w1 = (gr, wf)"
        by (cases "git_fetch (local_repo_dir self) w1")
      have rf: "R w1 wf" using fetch [OF False g] .
      show ?thesis
      proof (cases gr)
        case (Inl e)
        then show ?thesis using f False g rf by (simp add: f_def)
      next
        case (Inr u)
        then have "w2 = update_local_repo_status (fullname self) True wf"
          using f False g by (simp add: f_def)
        then show ?thesis using rf upd [of wf] by (blast intro: trans)
      qed
    qed
    with a1 have a2: "R w w2" by (blast intro: trans)
    have unf: "setup_local_repo_try E self remote b w =
      (case f of
                   (Inl e, w2) \<Rightarrow> (Inl e, w2)
                 | (Inr _, w2) \<Rightarrow>
                     (case setup_branch self b w2 of
                        (Inl e, w3) \<Rightarrow> (Inl e, w3)
                      | (Inr self1, w3) \<Rightarrow>
                          (case active_tracking_branch (local_repo_dir self) w3 of
                             Inl e \<Rightarrow> (Inl e, w3)
                           | Inr None \<Rightarrow>
                               (Inl (LookupError
                                  (''There is no remote tracking branch '' @
                                   squote (branch self1) @ '' in '' @
                                   squote (remote_url self1))), w3)
                           | Inr (Some tracking_branch) \<Rightarrow>
                               (case git_merge (local_repo_dir self) tracking_branch w3 of
                                  (Inl e, w4) \<Rightarrow> (Inl e, w4)
                                | (Inr _, w4) \<Rightarrow> (Inr self1, w4)))))"
      using Inr by (simp add: setup_local_repo_try_def f_def w1_def Let_def ne)
    show ?thesis
    proof (cases fr)
      case (Inl e)
      then show ?thesis using unf f a2 t by simp
    next
      case (Inr u)
      obtain sr w3 where sb: "setup_branch self b w2 = (sr, w3)"
        by (cases "setup_branch self b w2")
      have "R w2 w3" using setup_branch_rel [of R, OF refl checkout sb] .
      with a2 have a3: "R w w3" by (blast intro: trans)
      show ?thesis
        using unf f Inr sb a3 t
        by (auto split: sum.splits option.splits prod.splits dest: merge intro: trans)
    qed
  qed
qed

lemma setup_local_repo_rel:
  assumes refl: "\<And>w. R w w"
    and trans: "\<And>a b c. R a b \<Longrightarrow> R b c \<Longrightarrow> R a c"
    and checkout: "\<And>d x w res w1. git_checkout d x w = (res, w1) \<Longrightarrow> R w w1"
    and fetch: "\<And>d w res w1. \<not> local_repo_synced n w \<Longrightarrow>
                  git_fetch d w = (res, w1) \<Longrightarrow> R w w1"
    and merge: "\<And>d t w res w1. git_merge d t w = (res, w1) \<Longrightarrow> R w w1"
    and clone: "\<And>E u d w res w1. clone_from E u d w = (res, w1) \<Longrightarrow> R w w1"
    and upd: "\<And>w. R w (update_local_repo_status n True w)"
    and confirm: "\<And>w res w1. confirm_ask w = (res, w1) \<Longrightarrow> R w w1"
    and rmtree: "\<And>d w res w1. shutil_rmtree d w = (res, w1) \<Longrightarrow> R w w1"
  shows "fullname self = n \<Longrightarrow> setup_local_repo E self remote b w = (res, w') \<Longrightarrow> R w w'"
proof (induction E self remote b w arbitrary: res w' rule: setup_local_repo.induct)
  case (1 E self remote branch_arg w)
  define self0 where "self0 = self\<lparr>local_repo_dir := os_path_join (NFCORE_DIR E) [fullname self]\<rparr>"
  have fn: "fullname self0 = n" using "1.prems"(1) by (simp add: self0_def)
  obtain tr w1 where t: "setup_local_repo_try E self0 remote branch_arg w = (tr, w1)"
    by (cases "setup_local_repo_try E self0 remote branch_arg w")
  have r1: "R w w1"
  proof (rule setup_local_repo_try_rel [where R = R and self = self0, OF _ _ _ _ _ _ _ t])
    show "\<And>w. R w w" by (rule refl)
    show "\<And>a b c. R a b \<Longrightarrow> R b c \<Longrightarrow> R a c" by (rule trans)
    show "\<And>d x w res w1. git_checkout d x w = (res, w1) \<Longrightarrow> R w w1" by (rule checkout)
    show "\<And>d w res w1. \<not> local_repo_synced (fullname self0) w \<Longrightarrow>
                  git_fetch d w = (res, w1) \<Longrightarrow> R w w1"
      unfolding fn by (rule fetch)
    show "\<And>d t w res w1. git_merge d t w = (res, w1) \<Longrightarrow> R w w1" by (rule merge)
    show "\<And>u d w res w1. clone_from E u d w = (res, w1) \<Longrightarrow> R w w1" by (rule clone)
    show "\<And>w. R w (update_local_repo_status (fullname self0) True w)"
      unfolding fn by (rule upd)
  qed
  show ?case
  proof (cases tr)
    case (Inr s1)
    then show ?thesis using "1.prems"(2) t r1
      by (subst (asm) setup_local_repo.simps) (simp add: self0_def [symmetric])
  next
    case (Inl e)
    show ?thesis
    proof (cases "e = GitCommandError \<or> e = InvalidGitRepositoryError")
      case False
      then show ?thesis using "1.prems"(2) t r1 Inl
        by (subst (asm) setup_local_repo.simps) (auto simp add: self0_def [symmetric])
    next
      case True
      obtain cr w2 where c: "confirm_ask w1 = (cr, w2)" by (cases "confirm_ask w1")
      have r2: "R w w2" using r1 confirm [OF c] by (blast intro: trans)
      show ?thesis
      proof (cases cr)
        case (Inl e1)
        then show ?thesis using "1.prems"(2) t \<open>tr = Inl e\<close> True c r2
          by (subst (asm) setup_local_repo.simps) (auto simp add: self0_def [symmetric])
      next
        case (Inr a)
        show ?thesis
        proof (cases a)
          case False
          then show ?thesis using "1.prems"(2) t \<open>tr = Inl e\<close> True c r2 Inr
            by (subst (asm) setup_local_repo.simps) (auto simp add: self0_def [symmetric])
        next
          case a: True
          obtain rr w3 where rm: "shutil_rmtree (os_path_join (NFCORE_DIR E) [fullname self]) w2 = (rr, w3)"
            by (cases "shutil_rmtree (os_path_join (NFCORE_DIR E) [fullname self]) w2")
          have r3: "R w w3" using r2 rmtree [OF rm] by (blast intro: trans)
          show ?thesis
          proof (cases rr)
            case (Inl e2)
            then show ?thesis using "1.prems"(2) t \<open>tr = Inl e\<close> True c r3 Inr a rm
              by (subst (asm) setup_local_repo.simps) (auto simp add: self0_def [symmetric])
          next
            case (Inr u)
            have rec: "setup_local_repo E self0 remote branch_arg w3 = (res, w')"
              using "1.prems"(2) t \<open>tr = Inl e\<close> True c \<open>cr = Inr a\<close> a rm Inr
              by (subst (asm) setup_local_repo.simps) (auto simp add: self0_def [symmetric])
            have "R w3 w'"
              using "1.IH" [OF t [unfolded self0_def, symmetric] \<open>tr = Inl e\<close> True
                    c [symmetric] \<open>cr = Inr a\<close> a rm [symmetric] Inr _ rec [unfolded self0_def]]
                fn by (simp add: self0_def)
            with r3 show ?thesis by (blast intro: trans)
          qed
        qed
      qed
    qed
  qed
qed

lemma git_checkout_effect:
  "git_checkout d x w = (res, w1) \<Longrightarrow>
   local_repo_statuses w1 = local_repo_statuses w \<and> no_pull_global w1 = no_pull_global w \<and>
   disk w1 = disk w \<and> answers w1 = answers w \<and> calls w1 = calls w @ [Checkout d x] \<and>
   (cache w1 d = None) = (cache w d = None)"
  by (auto simp: git_checkout_def Let_def split: option.splits local_dir.splits if_splits)

lemma git_fetch_effect:
  "git_fetch d w = (res, w1) \<Longrightarrow> w1 = w\<lparr>calls := calls w @ [Fetch d]\<rparr>"
  by (auto simp: git_fetch_def Let_def split: option.splits local_dir.splits if_splits)

lemma git_merge_effect:
  "git_merge d t w = (res, w1) \<Longrightarrow> w1 = w\<lparr>calls := calls w @ [Merge d t]\<rparr>"
  by (auto simp: git_merge_def Let_def split: option.splits local_dir.splits if_splits)

lemma clone_from_effect:
  "clone_from E u d w = (res, w1) \<Longrightarrow>
   local_repo_statuses w1 = local_repo_statuses w \<and> no_pull_global w1 = no_pull_global w \<and>
   disk w1 = disk w \<and> answers w1 = answers w \<and> calls w1 = calls w @ [CloneFrom u d]"
  by (auto simp: clone_from_def Let_def split: option.splits)

lemma confirm_ask_effect:
  "confirm_ask w = (res, w1) \<Longrightarrow>
   local_repo_statuses w1 = local_repo_statuses w \<and> no_pull_global w1 = no_pull_global w \<and>
   disk w1 = disk w \<and> calls w1 = calls w \<and> cache w1 = cache w"
  by (auto simp: confirm_ask_def split: list.splits)

lemma shutil_rmtree_effect:
  "shutil_rmtree d w = (res, w1) \<Longrightarrow>
   local_repo_statuses w1 = local_repo_statuses w \<and> no_pull_global w1 = no_pull_global w \<and>
   disk w1 = disk w \<and> calls w1 = calls w \<and> answers w1 = answers w"
  by (auto simp: shutil_rmtree_def split: option.splits)

lemma local_repo_synced_update:
  "local_repo_synced m (update_local_repo_status n True w) = (m = n \<or> local_repo_synced m w)"
  by (simp add: local_repo_synced_def update_local_repo_status_def)


lemma setup_local_repo_synced_mono:
  assumes "setup_local_repo E self remote b w = (res, w')"
  shows "local_repo_synced m w \<longrightarrow> local_repo_synced m w'"
proof (rule setup_local_repo_rel [where R = "\<lambda>w w'. local_repo_synced m w \<longrightarrow> local_repo_synced m w'"
          and n = "fullname self", OF _ _ _ _ _ _ _ _ _ refl assms])
qed (auto dest: git_checkout_effect git_fetch_effect git_merge_effect clone_from_effect
       confirm_ask_effect shutil_rmtree_effect
     simp: update_local_repo_status_def local_repo_synced_def)









section \<open>The sync status of a process\<close>







lemma first_handle_value:
  "fst first_handle = Inr (example_self\<lparr>branch := ''master''\<rparr>)"
  unfolding first_handle_def by code_simp


section \<open>Merging a clone that was there\<close>





section \<open>Verifying the layout of the registry\<close>

lemma verify_branch_result:
  "verify_branch self w =
     (if ''modules'' \<in> set (os_listdir (all_files (local_repo_dir self) w) (local_repo_dir self))
      then Inr ()
      else Inl (LookupError (verify_branch_message (remote_url self) (branch self)
                  (''software'' \<in> set (os_listdir (all_files (local_repo_dir self) w)
                                          (local_repo_dir self))))))"
  by (simp add: verify_branch_def verify_branch_message_def Let_def)

text \<open>C2 (as amended). Once the local clone is set up and its configuration names the
  organisation path, \<^verbatim>\<open>__init__\<close> looks for a modules directory at the root of the clone
  whenever the organisation path is not nf-core or the resolved branch name is not
  empty, so also for the canonical registry on its default branch; the check is left out
  only for the path nf-core with an empty branch name. When the check runs and the
  directory is missing, the construction fails with a LookupError whose message carries
  the hint about renaming software/ exactly when a software directory is there;
  otherwise the construction returns the handle.\<close>

theorem init_verifies_layout:
  assumes url: "url = (case remote_url_arg of None \<Rightarrow> NF_CORE_MODULES_REMOTE | Some u \<Rightarrow> u)"
    and w0: "w0 = w\<lparr>no_pull_global := (no_pull_global w \<or> no_pull)\<rparr>"
    and self0: "self0 = \<lparr>remote_url = url, fullname = repo_full_name_from_remote E url,
                  local_repo_dir = [], branch = [], repo_path = [], modules_dir = [],
                  subworkflows_dir = []\<rparr>"
    and built: "fst (setup_local_repo E self0 url branch_arg w0) = Inr self1"
    and w1: "w1 = snd (setup_local_repo E self0 url branch_arg w0)"
    and org: "map_of (snd (load_tools_config (local_repo_dir self1) w1)) ''org_path'' = Some p"
    and listing: "dir_names = os_listdir (all_files (local_repo_dir self1) w1) (local_repo_dir self1)"
  shows "fst (ModulesRepo_init E remote_url_arg branch_arg no_pull w) =
           (if (p \<noteq> NF_CORE_MODULES_NAME \<or> branch self1 \<noteq> []) \<and> ''modules'' \<notin> set dir_names
            then Inl (LookupError (verify_branch_message (remote_url self1) (branch self1)
                                     (''software'' \<in> set dir_names)))
            else Inr (self1\<lparr>repo_path := p,
                            modules_dir := os_path_join (local_repo_dir self1) [''modules'', p],
                            subworkflows_dir :=
                              os_path_join (local_repo_dir self1) [''subworkflows'', p]\<rparr>))"
proof -
  obtain res where s: "setup_local_repo E self0 url branch_arg w0 = (Inr self1, w1)"
    using built w1 by (cases "setup_local_repo E self0 url branch_arg w0") simp
  obtain fn cfg where l: "load_tools_config (local_repo_dir self1) w1 = (fn, cfg)"
    by (cases "load_tools_config (local_repo_dir self1) w1")
  have c: "map_of cfg ''org_path'' = Some p" using org l by simp
  have v: "verify_branch (self1\<lparr>repo_path := p\<rparr>) w1 =
     (if ''modules'' \<in> set dir_names then Inr ()
      else Inl (LookupError (verify_branch_message (remote_url self1) (branch self1)
                  (''software'' \<in> set dir_names))))"
    by (simp add: verify_branch_result listing)
  show ?thesis
    unfolding ModulesRepo_init_def Let_def url [symmetric] w0 [symmetric] self0 [symmetric] s
    by (simp add: l c v)
qed

theorem init_verifies_canonical_default_counterexample:
  "fst (ModulesRepo_init legacy_env None None False (process_start Map.empty [] [])) =
     Inl (LookupError (verify_branch_message NF_CORE_MODULES_REMOTE
                         NF_CORE_MODULES_DEFAULT_BRANCH True))"
  by code_simp

theorem init_verifies_layout_witness:
  "fst (ModulesRepo_init legacy_env None None False (process_start Map.empty [] [])) =
     Inl (LookupError (verify_branch_message NF_CORE_MODULES_REMOTE ''master'' True)) \<and>
   fst (ModulesRepo_init example_env None None False (process_start Map.empty [] [])) =
     Inr example_self"
proof -
  have u: "NF_CORE_MODULES_REMOTE = (case None of None \<Rightarrow> NF_CORE_MODULES_REMOTE | Some u \<Rightarrow> u)"
    by simp
  have w0: "process_start Map.empty [] [] =
            (process_start Map.empty [] [])\<lparr>no_pull_global :=
               (no_pull_global (process_start Map.empty [] []) \<or> False)\<rparr>"
    by (simp add: process_start_def)
  have s1: "initial_self = \<lparr>remote_url = NF_CORE_MODULES_REMOTE,
                  fullname = repo_full_name_from_remote legacy_env NF_CORE_MODULES_REMOTE,
                  local_repo_dir = [], branch = [], repo_path = [], modules_dir = [],
                  subworkflows_dir = []\<rparr>"
    by (simp add: initial_self_def legacy_env_def example_env_def)
  have s2: "initial_self = \<lparr>remote_url = NF_CORE_MODULES_REMOTE,
                  fullname = repo_full_name_from_remote example_env NF_CORE_MODULES_REMOTE,
                  local_repo_dir = [], branch = [], repo_path = [], modules_dir = [],
                  subworkflows_dir = []\<rparr>"
    by (simp add: initial_self_def example_env_def)
  have a1: "fst (setup_local_repo legacy_env initial_self NF_CORE_MODULES_REMOTE None
                   (process_start Map.empty [] [])) =
            Inr (initial_self\<lparr>local_repo_dir := ''/cache/nf-core/modules'', branch := ''master''\<rparr>)"
    by code_simp
  have a2: "fst (setup_local_repo example_env initial_self NF_CORE_MODULES_REMOTE None
                   (process_start Map.empty [] [])) =
            Inr (initial_self\<lparr>local_repo_dir := ''/cache/nf-core/modules'', branch := ''master''\<rparr>)"
    by code_simp
  have b1: "map_of (snd (load_tools_config
              (local_repo_dir (initial_self\<lparr>local_repo_dir := ''/cache/nf-core/modules'', branch := ''master''\<rparr>))
              (snd (setup_local_repo legacy_env initial_self NF_CORE_MODULES_REMOTE None
                   (process_start Map.empty [] []))))) ''org_path'' = Some ''nf-core''"
    by code_simp
  have b2: "map_of (snd (load_tools_config
              (local_repo_dir (initial_self\<lparr>local_repo_dir := ''/cache/nf-core/modules'', branch := ''master''\<rparr>))
              (snd (setup_local_repo example_env initial_self NF_CORE_MODULES_REMOTE None
                   (process_start Map.empty [] []))))) ''org_path'' = Some ''nf-core''"
    by code_simp
  have l1: "os_listdir (all_files
              (local_repo_dir (initial_self\<lparr>local_repo_dir := ''/cache/nf-core/modules'', branch := ''master''\<rparr>))
              (snd (setup_local_repo legacy_env initial_self NF_CORE_MODULES_REMOTE None
                   (process_start Map.empty [] []))))
              (local_repo_dir (initial_self\<lparr>local_repo_dir := ''/cache/nf-core/modules'', branch := ''master''\<rparr>)) =
            [''README.md'', ''software'']"
    by code_simp
  have l2: "os_listdir (all_files
              (local_repo_dir (initial_self\<lparr>local_repo_dir := ''/cache/nf-core/modules'', branch := ''master''\<rparr>))
              (snd (setup_local_repo example_env initial_self NF_CORE_MODULES_REMOTE None
                   (process_start Map.empty [] []))))
              (local_repo_dir (initial_self\<lparr>local_repo_dir := ''/cache/nf-core/modules'', branch := ''master''\<rparr>)) =
            [''README.md'', ''modules'']"
    by code_simp
  have e: "initial_self\<lparr>local_repo_dir := ''/cache/nf-core/modules'', branch := ''master'',
             repo_path := ''nf-core'',
             modules_dir := os_path_join ''/cache/nf-core/modules'' [''modules'', ''nf-core''],
             subworkflows_dir := os_path_join ''/cache/nf-core/modules'' [''subworkflows'', ''nf-core'']\<rparr> =
           example_self"
    by (simp add: initial_self_def example_self_def os_path_join_def join2_def)
  note T1 = init_verifies_layout [OF u w0 s1 a1 refl b1 refl, unfolded l1]
  note T2 = init_verifies_layout [OF u w0 s2 a2 refl b2 refl, unfolded l2]
  have 1: "fst (ModulesRepo_init legacy_env None None False (process_start Map.empty [] [])) =
     Inl (LookupError (verify_branch_message NF_CORE_MODULES_REMOTE ''master'' True))"
    using T1 by (simp add: initial_self_def NF_CORE_MODULES_NAME_def)
  have 2: "fst (ModulesRepo_init example_env None None False (process_start Map.empty [] [])) =
     Inr example_self"
    using T2 e by (simp add: NF_CORE_MODULES_NAME_def)
  show ?thesis using 1 2 by (rule conjI)
qed

end
